theory Spec2Isabelle
  imports Main
begin

section \<open>Values, packages and documents\<close>

text \<open>
  The Python values that the attributes of a package can hold. \<open>PyNone\<close> is \<open>None\<close>,
  \<open>PyStr\<close> a string, \<open>SpdxNoAssertion\<close> an instance of the class of that name,
  \<open>PyTuple\<close> a pair as built by \<open>(package.name, package.spdx_id)\<close>, and
  \<open>PyOther b\<close> any other object, \<open>b\<close> being its truth value.
\<close>

datatype pyval =
    PyNone
  | PyStr string
  | SpdxNoAssertion
  | PyTuple pyval pyval
  | PyOther bool

text \<open>Truth value of a Python value, as tested by \<open>not x\<close>.\<close>

fun truthy :: "pyval \<Rightarrow> bool" where
  "truthy PyNone = False"
| "truthy (PyStr s) = (s \<noteq> [])"
| "truthy SpdxNoAssertion = True"
| "truthy (PyTuple a b) = True"
| "truthy (PyOther b) = b"

text \<open>
  Modelled from the spec: the attributes \<open>concluded_license\<close> and
  \<open>copyright_text\<close> of a package (spec 3), which only the checker modules read, and
  those are not among the sources. The attributes \<open>name\<close>, \<open>version\<close>,
  \<open>supplier\<close> and \<open>spdx_id\<close> are the ones util.py reads.
\<close>

record package =
  name :: pyval
  version :: pyval
  supplier :: pyval
  spdx_id :: pyval
  concluded_license :: pyval
  copyright_text :: pyval

text \<open>
  Modelled from the spec: the document-level metadata (spec 3): creation author,
  creation timestamp and declared relationships, which only the checker modules read.
  The collection \<open>packages\<close> is the one attribute util.py reads.
\<close>

datatype relationship_type = DESCRIBES | DEPENDS_ON | OTHER_RELATIONSHIP

record relationship =
  source_element :: string
  relationship_type :: relationship_type
  target_element :: string

record document =
  packages :: "package list"
  creation_author :: "string option"
  creation_timestamp :: "string option"
  relationships :: "relationship list"

datatype error = AttributeError | ValueError string

section \<open>util.py: the field predicates\<close>

text \<open>
  Each \<open>for package in doc.packages\<close> loop is a recursion over the package list that
  carries the list being appended to. A \<open>None\<close> document has no attribute
  \<open>packages\<close>: evaluating \<open>doc.packages\<close> raises \<open>AttributeError\<close>.
\<close>

fun components_without_names_loop :: "package list \<Rightarrow> pyval list \<Rightarrow> pyval list" where
  "components_without_names_loop [] acc = acc"
| "components_without_names_loop (package # rest) acc =
     components_without_names_loop rest
       (if \<not> truthy (name package) then acc @ [spdx_id package] else acc)"

definition get_components_without_names :: "document option \<Rightarrow> error + pyval list" where
  "get_components_without_names doc =
     (case doc of
        None \<Rightarrow> Inl AttributeError
      | Some d \<Rightarrow> Inr (components_without_names_loop (packages d) []))"

fun components_without_versions_loop ::
  "package list \<Rightarrow> bool \<Rightarrow> pyval list \<Rightarrow> pyval list" where
  "components_without_versions_loop [] return_tuples acc = acc"
| "components_without_versions_loop (package # rest) return_tuples acc =
     components_without_versions_loop rest return_tuples
       (if \<not> truthy (version package) then
          (if return_tuples then acc @ [PyTuple (name package) (spdx_id package)]
           else acc @ [name package])
        else acc)"

definition get_components_without_versions ::
  "document option \<Rightarrow> bool \<Rightarrow> error + pyval list" where
  "get_components_without_versions doc return_tuples =
     (case doc of
        None \<Rightarrow> Inl AttributeError
      | Some d \<Rightarrow> Inr (components_without_versions_loop (packages d) return_tuples []))"

fun components_without_suppliers_loop ::
  "package list \<Rightarrow> bool \<Rightarrow> pyval list \<Rightarrow> pyval list" where
  "components_without_suppliers_loop [] return_tuples acc = acc"
| "components_without_suppliers_loop (package # rest) return_tuples acc =
     (let no_supplier = (supplier package = PyNone \<or> supplier package = SpdxNoAssertion)
      in components_without_suppliers_loop rest return_tuples
           (if no_supplier then
              (if return_tuples then acc @ [PyTuple (name package) (spdx_id package)]
               else acc @ [name package])
            else acc))"

definition get_components_without_suppliers ::
  "document option \<Rightarrow> bool \<Rightarrow> error + pyval list" where
  "get_components_without_suppliers doc return_tuples =
     (case doc of
        None \<Rightarrow> Inl AttributeError
      | Some d \<Rightarrow> Inr (components_without_suppliers_loop (packages d) return_tuples []))"

definition get_components_without_identifiers :: "document option \<Rightarrow> error + pyval list" where
  "get_components_without_identifiers doc =
     (case doc of
        None \<Rightarrow> Inl AttributeError
      | Some d \<Rightarrow> Inr [name package. package \<leftarrow> packages d, \<not> truthy (spdx_id package)])"

text \<open>What one failing package contributes to a result list.\<close>

definition entry :: "bool \<Rightarrow> package \<Rightarrow> pyval" where
  "entry return_tuples package =
     (if return_tuples then PyTuple (name package) (spdx_id package) else name package)"

definition no_supplier :: "package \<Rightarrow> bool" where
  "no_supplier package \<longleftrightarrow> supplier package = PyNone \<or> supplier package = SpdxNoAssertion"

section \<open>util.py on an explicit store\<close>















section \<open>The checkers\<close>

text \<open>
  Modelled from the spec: the checker object. The modules base_checker.py,
  ntia_checker.py, fsct_checker.py and sbom_checker.py are not among the sources; only
  their tests are. The checker holds the document, the three document-level booleans
  and the per-field missing-component lists (spec 3, spec 4.2); the attribute names
  are those the tests assign.
\<close>

record checker =
  doc :: "document option"
  doc_author :: bool
  doc_timestamp :: bool
  dependency_relationships :: bool
  components_without_names :: "pyval list"
  components_without_versions :: "pyval list"
  components_without_identifiers :: "pyval list"
  components_without_suppliers :: "pyval list"
  components_without_concluded_licenses :: "pyval list"
  components_without_copyright_texts :: "pyval list"

datatype standard = NTIA | FSCT3

text \<open>
  Modelled from the spec: BaseChecker.check_author (absent). \<open>True\<close> iff the
  document's author metadata is present; \<open>False\<close> when the document is \<open>None\<close>.
\<close>

definition check_author :: "document option \<Rightarrow> bool" where
  "check_author self_doc =
     (case self_doc of None \<Rightarrow> False | Some d \<Rightarrow> creation_author d \<noteq> None)"

text \<open>
  Modelled from the spec: BaseChecker.check_timestamp (absent). \<open>True\<close> iff a
  creation timestamp is present; \<open>False\<close> when the document is \<open>None\<close>.
\<close>

definition check_timestamp :: "document option \<Rightarrow> bool" where
  "check_timestamp self_doc =
     (case self_doc of None \<Rightarrow> False | Some d \<Rightarrow> creation_timestamp d \<noteq> None)"

text \<open>
  Modelled from the spec: BaseChecker.check_dependency_relationships (absent).
  \<open>True\<close> iff at least one declared relationship of dependency or describes style
  exists; \<open>False\<close> when the document is \<open>None\<close> or has no such relationship.
\<close>

definition check_dependency_relationships :: "document option \<Rightarrow> bool" where
  "check_dependency_relationships self_doc =
     (case self_doc of
        None \<Rightarrow> False
      | Some d \<Rightarrow>
          list_ex (\<lambda>r. relationship_type r = DESCRIBES \<or> relationship_type r = DEPENDS_ON)
            (relationships d))"

text \<open>
  Modelled from the spec: the accessors of BaseChecker (absent) that carry the names of
  the field predicates. Each branches on the absence of the document, returning the
  empty list for \<open>None\<close> (as the tests of base_checker require), and otherwise
  delegates to the field predicate of util.py with its default arguments.
\<close>

definition checker_get_components_without_names :: "document option \<Rightarrow> error + pyval list" where
  "checker_get_components_without_names self_doc =
     (case self_doc of None \<Rightarrow> Inr [] | Some d \<Rightarrow> get_components_without_names (Some d))"

definition checker_get_components_without_versions :: "document option \<Rightarrow> error + pyval list" where
  "checker_get_components_without_versions self_doc =
     (case self_doc of None \<Rightarrow> Inr [] | Some d \<Rightarrow> get_components_without_versions (Some d) False)"

definition checker_get_components_without_identifiers ::
  "document option \<Rightarrow> error + pyval list" where
  "checker_get_components_without_identifiers self_doc =
     (case self_doc of None \<Rightarrow> Inr [] | Some d \<Rightarrow> get_components_without_identifiers (Some d))"

definition checker_get_components_without_suppliers ::
  "document option \<Rightarrow> error + pyval list" where
  "checker_get_components_without_suppliers self_doc =
     (case self_doc of None \<Rightarrow> Inr [] | Some d \<Rightarrow> get_components_without_suppliers (Some d) False)"

text \<open>
  Modelled from the spec: the predicates for concluded license and copyright text
  (absent from util.py). Both fields are optional, and the no-assertion marker counts
  as absence; the result lists the names of the packages lacking the field, in
  document order, and is empty for a \<open>None\<close> document.
\<close>

definition checker_get_components_without_concluded_licenses ::
  "document option \<Rightarrow> error + pyval list" where
  "checker_get_components_without_concluded_licenses self_doc =
     (case self_doc of
        None \<Rightarrow> Inr []
      | Some d \<Rightarrow>
          Inr [name package. package \<leftarrow> packages d,
                 concluded_license package = PyNone
                 \<or> concluded_license package = SpdxNoAssertion])"

definition checker_get_components_without_copyright_texts ::
  "document option \<Rightarrow> error + pyval list" where
  "checker_get_components_without_copyright_texts self_doc =
     (case self_doc of
        None \<Rightarrow> Inr []
      | Some d \<Rightarrow>
          Inr [name package. package \<leftarrow> packages d,
                 copyright_text package = PyNone
                 \<or> copyright_text package = SpdxNoAssertion])"

text \<open>An exception raised by a step ends the computation; otherwise the next step runs.\<close>

definition and_then :: "error + 'a \<Rightarrow> ('a \<Rightarrow> error + 'b) \<Rightarrow> error + 'b" where
  "and_then r f = (case r of Inl e \<Rightarrow> Inl e | Inr x \<Rightarrow> f x)"

text \<open>
  Modelled from the spec: the constructor of BaseChecker (absent), after parsing. The
  parser is external; its outcome, a document or \<open>None\<close>, is the argument. All checks
  are computed eagerly at construction (spec 3).
\<close>

definition BaseChecker_init :: "document option \<Rightarrow> error + checker" where
  "BaseChecker_init d =
     and_then (checker_get_components_without_names d) (\<lambda>names.
     and_then (checker_get_components_without_versions d) (\<lambda>versions.
     and_then (checker_get_components_without_identifiers d) (\<lambda>identifiers.
     and_then (checker_get_components_without_suppliers d) (\<lambda>suppliers.
     and_then (checker_get_components_without_concluded_licenses d) (\<lambda>licenses.
     and_then (checker_get_components_without_copyright_texts d) (\<lambda>copyrights.
     Inr \<lparr> doc = d,
           doc_author = check_author d,
           doc_timestamp = check_timestamp d,
           dependency_relationships = check_dependency_relationships d,
           components_without_names = names,
           components_without_versions = versions,
           components_without_identifiers = identifiers,
           components_without_suppliers = suppliers,
           components_without_concluded_licenses = licenses,
           components_without_copyright_texts = copyrights \<rparr>))))))"

text \<open>
  Modelled from the spec: NTIAChecker.check_compliance (absent). The verdict requires
  all four field lists empty and all three document checks true (spec 4.3).
\<close>

definition NTIAChecker_check_compliance :: "checker \<Rightarrow> bool" where
  "NTIAChecker_check_compliance c \<longleftrightarrow>
     doc_author c \<and> doc_timestamp c \<and> dependency_relationships c
     \<and> components_without_names c = []
     \<and> components_without_versions c = []
     \<and> components_without_identifiers c = []
     \<and> components_without_suppliers c = []"

text \<open>
  Modelled from the spec: FSCT3Checker.check_compliance (absent). The verdict requires
  all six field lists empty and all three document checks true (spec 4.3).
\<close>

definition FSCT3Checker_check_compliance :: "checker \<Rightarrow> bool" where
  "FSCT3Checker_check_compliance c \<longleftrightarrow>
     doc_author c \<and> doc_timestamp c \<and> dependency_relationships c
     \<and> components_without_names c = []
     \<and> components_without_versions c = []
     \<and> components_without_identifiers c = []
     \<and> components_without_suppliers c = []
     \<and> components_without_concluded_licenses c = []
     \<and> components_without_copyright_texts c = []"

text \<open>Modelled from the spec: the method check_compliance of the checker of a standard.\<close>

fun check_compliance :: "standard \<Rightarrow> checker \<Rightarrow> bool" where
  "check_compliance NTIA c = NTIAChecker_check_compliance c"
| "check_compliance FSCT3 c = FSCT3Checker_check_compliance c"

text \<open>
  Modelled from the spec: the fields of each profile (spec 4.3): NTIA has name,
  version, supplier and identifier; FSCT3 has those four plus concluded license and
  copyright text. This is the list of the missing-component lists configured for a
  standard.
\<close>

fun configured_missing_lists :: "standard \<Rightarrow> checker \<Rightarrow> pyval list list" where
  "configured_missing_lists NTIA c =
     [components_without_names c, components_without_versions c,
      components_without_suppliers c, components_without_identifiers c]"
| "configured_missing_lists FSCT3 c =
     [components_without_names c, components_without_versions c,
      components_without_suppliers c, components_without_identifiers c,
      components_without_concluded_licenses c, components_without_copyright_texts c]"

text \<open>
  Modelled from the spec: the factory SbomChecker of sbom_checker.py (absent). An
  unrecognized \<open>sbom_spec\<close> is rejected before dispatch; then \<open>compliance\<close> selects
  the standard, and an unrecognized value is rejected (spec 4.4). Both rejections are
  \<open>ValueError\<close>s, with the messages the tests match. The selected standard stands for
  the checker that the factory constructs from the same file and flags.
\<close>

definition SbomChecker :: "string \<Rightarrow> bool \<Rightarrow> string \<Rightarrow> string \<Rightarrow> error + standard" where
  "SbomChecker file validate compliance sbom_spec =
     (if sbom_spec \<noteq> ''spdx2'' \<and> sbom_spec \<noteq> ''spdx3''
        then Inl (ValueError ''Unsupported SBOM specification'')
      else if compliance = ''ntia'' then Inr NTIA
      else if compliance = ''fsct3-min'' then Inr FSCT3
      else Inl (ValueError ''Unknown compliance standard''))"

text \<open>
  Modelled from the spec: the table elements that NTIAChecker and FSCT3Checker (absent)
  hand to the renderers (spec 4.2, spec 8), each element named as the spec names it.
\<close>

fun table_elements :: "standard \<Rightarrow> string list" where
  "table_elements NTIA =
     [''name'', ''version'', ''identifier'', ''supplier'', ''author'', ''timestamp'',
      ''dependency relationships'']"
| "table_elements FSCT3 =
     [''name'', ''version'', ''identifier'', ''supplier'', ''author'', ''timestamp'',
      ''dependency relationships'', ''concluded license'', ''copyright text'']"

section \<open>Example documents\<close>

text \<open>
  A package with name, version, supplier and identifier but no concluded license, and
  a document that holds it together with author, timestamp and a describing
  relationship (the scenario of spec 8).
\<close>

definition example_package :: package where
  "example_package =
     \<lparr> name = PyStr ''pkg'', version = PyStr ''1.0'',
       supplier = PyStr ''Organization: ACME'', spdx_id = PyStr ''SPDXRef-pkg'',
       concluded_license = PyNone, copyright_text = PyStr ''Copyright ACME'' \<rparr>"

definition example_document :: document where
  "example_document =
     \<lparr> packages = [example_package],
       creation_author = Some ''Tool: sbom-generator'',
       creation_timestamp = Some ''2024-01-01T00:00:00Z'',
       relationships =
         [\<lparr> source_element = ''SPDXRef-DOCUMENT'', relationship_type = DESCRIBES,
            target_element = ''SPDXRef-pkg'' \<rparr>] \<rparr>"

text \<open>The same document with the concluded license filled in.\<close>

definition licensed_document :: document where
  "licensed_document =
     example_document
       \<lparr> packages := [example_package \<lparr> concluded_license := PyStr ''MIT'' \<rparr>] \<rparr>"

text \<open>
  A package whose name, version and supplier are all the empty string, and a document
  that holds only it.
\<close>

definition nameless_package :: package where
  "nameless_package =
     \<lparr> name = PyStr '''', version = PyStr '''', supplier = PyStr '''',
       spdx_id = PyStr ''SPDXRef-A'', concluded_license = PyNone, copyright_text = PyNone \<rparr>"

definition nameless_document :: document where
  "nameless_document =
     \<lparr> packages = [nameless_package], creation_author = None, creation_timestamp = None,
       relationships = [] \<rparr>"

section \<open>The loops as filters\<close>

lemmas util_defs =
  get_components_without_names_def get_components_without_versions_def
  get_components_without_suppliers_def get_components_without_identifiers_def

lemmas accessor_defs =
  checker_get_components_without_names_def checker_get_components_without_versions_def
  checker_get_components_without_identifiers_def checker_get_components_without_suppliers_def
  checker_get_components_without_concluded_licenses_def
  checker_get_components_without_copyright_texts_def

lemmas check_defs =
  check_author_def check_timestamp_def check_dependency_relationships_def

lemmas example_defs =
  example_document_def example_package_def licensed_document_def
  nameless_document_def nameless_package_def

lemma names_loop_filter:
  "components_without_names_loop ps acc =
     acc @ map spdx_id (filter (\<lambda>p. \<not> truthy (name p)) ps)"
  by (induction ps arbitrary: acc) simp_all

lemma versions_loop_filter:
  "components_without_versions_loop ps rt acc =
     acc @ map (entry rt) (filter (\<lambda>p. \<not> truthy (version p)) ps)"
  by (induction ps arbitrary: acc) (simp_all add: entry_def)

lemma suppliers_loop_filter:
  "components_without_suppliers_loop ps rt acc =
     acc @ map (entry rt) (filter no_supplier ps)"
  by (induction ps arbitrary: acc) (simp_all add: entry_def no_supplier_def)

lemma comprehension_filter:
  "concat (map (\<lambda>p. if P p then [f p] else []) ps) = map f (filter P ps)"
  by (induction ps) simp_all

text \<open>The constructor never raises, and this is the checker it builds.\<close>

lemma BaseChecker_init_total:
  "BaseChecker_init d =
     Inr \<lparr> doc = d,
           doc_author = check_author d,
           doc_timestamp = check_timestamp d,
           dependency_relationships = check_dependency_relationships d,
           components_without_names =
             (case d of None \<Rightarrow> []
              | Some x \<Rightarrow> map spdx_id (filter (\<lambda>p. \<not> truthy (name p)) (packages x))),
           components_without_versions =
             (case d of None \<Rightarrow> []
              | Some x \<Rightarrow> map name (filter (\<lambda>p. \<not> truthy (version p)) (packages x))),
           components_without_identifiers =
             (case d of None \<Rightarrow> []
              | Some x \<Rightarrow> map name (filter (\<lambda>p. \<not> truthy (spdx_id p)) (packages x))),
           components_without_suppliers =
             (case d of None \<Rightarrow> []
              | Some x \<Rightarrow> map name (filter no_supplier (packages x))),
           components_without_concluded_licenses =
             (case d of None \<Rightarrow> []
              | Some x \<Rightarrow>
                  map name
                    (filter (\<lambda>p. concluded_license p = PyNone
                                 \<or> concluded_license p = SpdxNoAssertion) (packages x))),
           components_without_copyright_texts =
             (case d of None \<Rightarrow> []
              | Some x \<Rightarrow>
                  map name
                    (filter (\<lambda>p. copyright_text p = PyNone
                                 \<or> copyright_text p = SpdxNoAssertion) (packages x))) \<rparr>"
  by (cases d)
    (simp_all add: BaseChecker_init_def and_then_def accessor_defs util_defs
      names_loop_filter versions_loop_filter suppliers_loop_filter comprehension_filter
      entry_def)

section \<open>The verdict\<close>

text \<open>
  C1: for both standards and every checker state, \<open>check_compliance\<close> is \<open>True\<close>
  if and only if every missing-component list configured for the standard is empty
  and the three document-level booleans are \<open>True\<close>; every outcome of parsing, a
  document or \<open>None\<close>, yields a checker; and the checker built from a \<open>None\<close>
  document has the verdict \<open>False\<close>.
\<close>

theorem check_compliance_iff_lists_empty_and_checks_true:
  "(check_compliance std c \<longleftrightarrow>
      (\<forall>l \<in> set (configured_missing_lists std c). l = [])
      \<and> doc_author c \<and> doc_timestamp c \<and> dependency_relationships c)
   \<and> (\<exists>c'. BaseChecker_init d = Inr c')
   \<and> (\<exists>c'. BaseChecker_init None = Inr c' \<and> \<not> check_compliance std c')"
proof (intro conjI)
  show "check_compliance std c \<longleftrightarrow>
      (\<forall>l \<in> set (configured_missing_lists std c). l = [])
      \<and> doc_author c \<and> doc_timestamp c \<and> dependency_relationships c"
    by (cases std)
      (auto simp add: NTIAChecker_check_compliance_def FSCT3Checker_check_compliance_def)
  show "\<exists>c'. BaseChecker_init d = Inr c'"
    by (simp add: BaseChecker_init_total)
  show "\<exists>c'. BaseChecker_init None = Inr c' \<and> \<not> check_compliance std c'"
    by (cases std)
      (simp_all add: BaseChecker_init_total check_author_def
        NTIAChecker_check_compliance_def FSCT3Checker_check_compliance_def)
qed

theorem check_compliance_iff_witness:
  "\<exists>c. BaseChecker_init (Some licensed_document) = Inr c
        \<and> check_compliance NTIA c \<and> check_compliance FSCT3 c"
proof -
  obtain c where c: "BaseChecker_init (Some licensed_document) = Inr c"
    using check_compliance_iff_lists_empty_and_checks_true
      [where d = "Some licensed_document"]
    by blast
  have checks: "doc_author c \<and> doc_timestamp c \<and> dependency_relationships c"
    using c by (auto simp add: BaseChecker_init_total example_defs check_defs)
  have "\<forall>l \<in> set (configured_missing_lists FSCT3 c). l = []"
    using c by (auto simp add: BaseChecker_init_total example_defs no_supplier_def)
  moreover have "\<forall>l \<in> set (configured_missing_lists NTIA c). l = []"
    using c by (auto simp add: BaseChecker_init_total example_defs no_supplier_def)
  ultimately have "check_compliance NTIA c \<and> check_compliance FSCT3 c"
    using checks
      check_compliance_iff_lists_empty_and_checks_true [where std = NTIA and c = c]
      check_compliance_iff_lists_empty_and_checks_true [where std = FSCT3 and c = c]
    by blast
  with c show ?thesis by blast
qed

section \<open>Missing suppliers\<close>

text \<open>
  C2: in every document, a package contributes its entry to the list returned by
  \<open>get_components_without_suppliers\<close>, at its place between the entries of the
  packages before it and of those after it, if and only if its supplier is \<open>None\<close>
  or an \<open>SpdxNoAssertion\<close>; with any other supplier it contributes nothing.
\<close>

theorem missing_supplier_iff_none_or_no_assertion:
  "\<exists>before after.
      get_components_without_suppliers (Some (d\<lparr>packages := pre\<rparr>)) rt = Inr before
    \<and> get_components_without_suppliers (Some (d\<lparr>packages := post\<rparr>)) rt = Inr after
    \<and> get_components_without_suppliers (Some (d\<lparr>packages := pre @ p # post\<rparr>)) rt =
        Inr (before
             @ (if supplier p = PyNone \<or> supplier p = SpdxNoAssertion then [entry rt p] else [])
             @ after)"
  by (simp add: get_components_without_suppliers_def suppliers_loop_filter no_supplier_def)

theorem missing_supplier_witness:
  "get_components_without_suppliers
     (Some (example_document \<lparr> packages :=
        [example_package, example_package \<lparr> supplier := SpdxNoAssertion \<rparr>,
         example_package \<lparr> name := PyStr ''lib'', supplier := PyNone \<rparr>] \<rparr>)) False =
   Inr [PyStr ''pkg'', PyStr ''lib'']"
  using missing_supplier_iff_none_or_no_assertion
    [where d = example_document and pre = "[example_package]" and rt = False
      and post = "[example_package \<lparr> name := PyStr ''lib'', supplier := PyNone \<rparr>]"
      and p = "example_package \<lparr> supplier := SpdxNoAssertion \<rparr>"]
  by (simp add: get_components_without_suppliers_def example_package_def entry_def)

section \<open>A None document, and what a call changes\<close>


















section \<open>What the result lists hold\<close>




section \<open>The two standards compared\<close>

text \<open>
  C5: FSCT3 is strictly stricter than NTIA. For every outcome of parsing \<open>D\<close>, the
  checker built from it exists, and if its FSCT3 verdict is \<open>True\<close> then its lists
  for name, version, supplier and identifier are empty, its three document-level
  booleans are \<open>True\<close>, and its NTIA verdict is \<open>True\<close>. The converse fails: some
  document is compliant with NTIA and not with FSCT3.
\<close>

theorem fsct3_strictly_stricter_than_ntia:
  "(\<exists>c. BaseChecker_init D = Inr c
        \<and> (check_compliance FSCT3 c \<longrightarrow>
             components_without_names c = [] \<and> components_without_versions c = []
             \<and> components_without_suppliers c = [] \<and> components_without_identifiers c = []
             \<and> doc_author c \<and> doc_timestamp c \<and> dependency_relationships c
             \<and> check_compliance NTIA c))
   \<and> (\<exists>D' c'. BaseChecker_init D' = Inr c'
          \<and> check_compliance NTIA c' \<and> \<not> check_compliance FSCT3 c')"
proof (intro conjI)
  show "\<exists>c. BaseChecker_init D = Inr c
        \<and> (check_compliance FSCT3 c \<longrightarrow>
             components_without_names c = [] \<and> components_without_versions c = []
             \<and> components_without_suppliers c = [] \<and> components_without_identifiers c = []
             \<and> doc_author c \<and> doc_timestamp c \<and> dependency_relationships c
             \<and> check_compliance NTIA c)"
    by (simp add: BaseChecker_init_total NTIAChecker_check_compliance_def
        FSCT3Checker_check_compliance_def)
  have "\<exists>c'. BaseChecker_init (Some example_document) = Inr c'
          \<and> check_compliance NTIA c' \<and> \<not> check_compliance FSCT3 c'"
    by (simp add: BaseChecker_init_total example_document_def example_package_def check_defs
        no_supplier_def NTIAChecker_check_compliance_def FSCT3Checker_check_compliance_def)
  then show "\<exists>D' c'. BaseChecker_init D' = Inr c'
          \<and> check_compliance NTIA c' \<and> \<not> check_compliance FSCT3 c'"
    by blast
qed

theorem fsct3_strictly_stricter_witness:
  "\<exists>c. BaseChecker_init (Some licensed_document) = Inr c
        \<and> check_compliance FSCT3 c \<and> components_without_suppliers c = []
        \<and> check_compliance NTIA c"
proof -
  from fsct3_strictly_stricter_than_ntia [of "Some licensed_document"] obtain c where
    c: "BaseChecker_init (Some licensed_document) = Inr c"
    and imp: "check_compliance FSCT3 c \<longrightarrow>
                components_without_suppliers c = [] \<and> check_compliance NTIA c"
    by blast
  have "check_compliance FSCT3 c"
    using c
    by (auto simp add: BaseChecker_init_total example_defs check_defs no_supplier_def
        FSCT3Checker_check_compliance_def)
  with c imp show ?thesis by blast
qed

section \<open>Order of the results\<close>

text \<open>
  C6: on every document, each of the four field predicates returns the entries of
  exactly the packages failing its check, in document order: the result is the
  projection of the filtered package list, so nothing is sorted and nothing is
  dropped, and a package occurring twice contributes two entries.
\<close>

theorem predicates_preserve_document_order:
  "get_components_without_names (Some d) =
     Inr (map spdx_id (filter (\<lambda>p. \<not> truthy (name p)) (packages d)))
   \<and> get_components_without_versions (Some d) rt =
     Inr (map (entry rt) (filter (\<lambda>p. \<not> truthy (version p)) (packages d)))
   \<and> get_components_without_suppliers (Some d) rt =
     Inr (map (entry rt) (filter no_supplier (packages d)))
   \<and> get_components_without_identifiers (Some d) =
     Inr (map name (filter (\<lambda>p. \<not> truthy (spdx_id p)) (packages d)))"
  by (simp add: util_defs names_loop_filter versions_loop_filter suppliers_loop_filter
      comprehension_filter)

theorem predicates_preserve_document_order_witness:
  "get_components_without_versions
     (Some (nameless_document
        \<lparr> packages :=
            [nameless_package \<lparr> name := PyStr ''b'' \<rparr>, example_package,
             nameless_package \<lparr> name := PyStr ''a'' \<rparr>,
             nameless_package \<lparr> name := PyStr ''b'' \<rparr>] \<rparr>)) False =
   Inr [PyStr ''b'', PyStr ''a'', PyStr ''b'']"
  using predicates_preserve_document_order
    [where rt = False and d = "nameless_document
        \<lparr> packages :=
            [nameless_package \<lparr> name := PyStr ''b'' \<rparr>, example_package,
             nameless_package \<lparr> name := PyStr ''a'' \<rparr>,
             nameless_package \<lparr> name := PyStr ''b'' \<rparr>] \<rparr>"]
  by (simp add: example_package_def nameless_package_def entry_def)

section \<open>The factory\<close>

text \<open>
  C7: for every compliance name other than ntia and fsct3-min, the factory
  \<open>SbomChecker\<close> raises an error and selects no standard; for every \<open>sbom_spec\<close>
  other than spdx2 and spdx3 it raises the error of an unsupported specification,
  whatever the compliance name is, so before dispatching on it; with a recognized
  \<open>sbom_spec\<close>, an unrecognized compliance name raises the error of an unknown
  standard; and the two errors differ.
\<close>

theorem SbomChecker_rejects_unrecognized_values:
  "(compliance \<noteq> ''ntia'' \<and> compliance \<noteq> ''fsct3-min'' \<longrightarrow>
      (\<exists>e. SbomChecker file validate compliance sbom_spec = Inl e))
   \<and> (sbom_spec \<noteq> ''spdx2'' \<and> sbom_spec \<noteq> ''spdx3'' \<longrightarrow>
        SbomChecker file validate compliance sbom_spec =
          Inl (ValueError ''Unsupported SBOM specification''))
   \<and> ((sbom_spec = ''spdx2'' \<or> sbom_spec = ''spdx3'')
        \<and> compliance \<noteq> ''ntia'' \<and> compliance \<noteq> ''fsct3-min'' \<longrightarrow>
        SbomChecker file validate compliance sbom_spec =
          Inl (ValueError ''Unknown compliance standard''))
   \<and> ValueError ''Unsupported SBOM specification'' \<noteq> ValueError ''Unknown compliance standard''"
  by (auto simp add: SbomChecker_def)

theorem SbomChecker_rejects_witness:
  "SbomChecker ''sbom.spdx'' True ''unknown'' ''spdx2'' =
     Inl (ValueError ''Unknown compliance standard'')
   \<and> SbomChecker ''sbom.spdx'' True ''ntia'' ''unsupported'' =
     Inl (ValueError ''Unsupported SBOM specification'')"
  using SbomChecker_rejects_unrecognized_values
      [of "''unknown''" "''sbom.spdx''" True "''spdx2''"]
    SbomChecker_rejects_unrecognized_values
      [of "''ntia''" "''sbom.spdx''" True "''unsupported''"]
  by simp

section \<open>The table elements\<close>

text \<open>
  C8: the NTIA checker supplies exactly seven table elements, in the order name,
  version, identifier, supplier, author, timestamp, dependency relationships; the
  FSCT3 checker supplies exactly nine, the same seven followed by concluded license
  and copyright text.
\<close>

theorem table_elements_fixed:
  "table_elements NTIA =
     [''name'', ''version'', ''identifier'', ''supplier'', ''author'', ''timestamp'',
      ''dependency relationships'']
   \<and> length (table_elements NTIA) = 7
   \<and> table_elements FSCT3 = table_elements NTIA @ [''concluded license'', ''copyright text'']
   \<and> length (table_elements FSCT3) = 9"
  by simp

section \<open>Identity against falsiness\<close>

text \<open>
  C9: in every document, a package whose supplier is neither \<open>None\<close> nor an
  \<open>SpdxNoAssertion\<close>, be it the empty string or any other falsy value, is left out
  by \<open>get_components_without_suppliers\<close>: the result is the one of the document
  without that package. A package whose version is the empty string is included by
  \<open>get_components_without_versions\<close>: its entry stands between the entries of the
  packages before it and of those after it.
\<close>

theorem supplier_by_identity_version_by_falsiness:
  "(supplier p \<noteq> PyNone \<and> supplier p \<noteq> SpdxNoAssertion \<longrightarrow>
      get_components_without_suppliers (Some (d\<lparr>packages := pre @ p # post\<rparr>)) rt =
      get_components_without_suppliers (Some (d\<lparr>packages := pre @ post\<rparr>)) rt)
   \<and> (version p = PyStr '''' \<longrightarrow>
        (\<exists>before after.
            get_components_without_versions (Some (d\<lparr>packages := pre\<rparr>)) rt = Inr before
          \<and> get_components_without_versions (Some (d\<lparr>packages := post\<rparr>)) rt = Inr after
          \<and> get_components_without_versions (Some (d\<lparr>packages := pre @ p # post\<rparr>)) rt =
              Inr (before @ [entry rt p] @ after)))"
  by (simp add: get_components_without_suppliers_def get_components_without_versions_def
      suppliers_loop_filter versions_loop_filter no_supplier_def)

theorem supplier_by_identity_witness:
  "supplier nameless_package \<noteq> PyNone \<and> supplier nameless_package \<noteq> SpdxNoAssertion
   \<and> \<not> truthy (supplier nameless_package)
   \<and> version nameless_package = PyStr ''''
   \<and> get_components_without_suppliers (Some nameless_document) False = Inr []
   \<and> get_components_without_versions (Some nameless_document) False = Inr [PyStr '''']"
proof -
  have s: "supplier nameless_package \<noteq> PyNone \<and> supplier nameless_package \<noteq> SpdxNoAssertion"
    by (simp add: nameless_package_def)
  have v: "version nameless_package = PyStr ''''"
    by (simp add: nameless_package_def)
  from supplier_by_identity_version_by_falsiness
    [where p = nameless_package and d = nameless_document and pre = "[]"
      and post = "[]" and rt = False] s v
  show ?thesis
    by (auto simp add: get_components_without_suppliers_def get_components_without_versions_def
        entry_def nameless_package_def nameless_document_def)
qed

section \<open>The flag return_tuples\<close>

text \<open>
  C10: on every document, the result of \<open>get_components_without_versions\<close> with
  \<open>return_tuples\<close> set is a list of pairs, and the list of their first components
  is exactly the result with the flag unset; the same holds of
  \<open>get_components_without_suppliers\<close>.
\<close>

theorem return_tuples_changes_only_shape:
  "(\<exists>ts. get_components_without_versions (Some d) True = Inr (map (\<lambda>(n, i). PyTuple n i) ts)
        \<and> get_components_without_versions (Some d) False = Inr (map fst ts))
   \<and> (\<exists>ts. get_components_without_suppliers (Some d) True = Inr (map (\<lambda>(n, i). PyTuple n i) ts)
        \<and> get_components_without_suppliers (Some d) False = Inr (map fst ts))"
proof (intro conjI)
  let ?pair = "\<lambda>p. (name p, spdx_id p)"
  let ?vs = "map ?pair (filter (\<lambda>p. \<not> truthy (version p)) (packages d))"
  let ?ss = "map ?pair (filter no_supplier (packages d))"
  have "get_components_without_versions (Some d) True = Inr (map (\<lambda>(n, i). PyTuple n i) ?vs)
        \<and> get_components_without_versions (Some d) False = Inr (map fst ?vs)"
    by (simp add: get_components_without_versions_def versions_loop_filter entry_def comp_def)
  then show "\<exists>ts. get_components_without_versions (Some d) True =
                   Inr (map (\<lambda>(n, i). PyTuple n i) ts)
        \<and> get_components_without_versions (Some d) False = Inr (map fst ts)"
    by blast
  have "get_components_without_suppliers (Some d) True = Inr (map (\<lambda>(n, i). PyTuple n i) ?ss)
        \<and> get_components_without_suppliers (Some d) False = Inr (map fst ?ss)"
    by (simp add: get_components_without_suppliers_def suppliers_loop_filter entry_def comp_def)
  then show "\<exists>ts. get_components_without_suppliers (Some d) True =
                   Inr (map (\<lambda>(n, i). PyTuple n i) ts)
        \<and> get_components_without_suppliers (Some d) False = Inr (map fst ts)"
    by blast
qed

theorem return_tuples_witness:
  "\<exists>ts. get_components_without_versions (Some nameless_document) True =
           Inr (map (\<lambda>(n, i). PyTuple n i) ts)
        \<and> get_components_without_versions (Some nameless_document) False = Inr (map fst ts)"
  using return_tuples_changes_only_shape [of nameless_document]
  by (rule conjunct1)

end
